theory Spec2Isabelle
  imports Main
begin

section \<open>Column insights: the interface of \<^verbatim>\<open>insight_interface.py\<close>\<close>

text \<open>
  Modelled from the spec: the enumeration \<^verbatim>\<open>WarehouseType\<close> is imported from
  \<^verbatim>\<open>ddpui.datainsights.warehouse.warehouse_interface\<close>, which is not among the
  sources; section 3 of the specification gives its three members.
\<close>

datatype WarehouseType = POSTGRES | BIGQUERY | SNOWFLAKE

text \<open>
  Modelled from the spec: the error taxonomy of section 7 that concerns plugins and
  coordinators. No class of these names is declared or raised in the sources.
\<close>

datatype insight_error =
    ConstructionError
  | MergeLengthMismatchError
  | ResultShapeError string

text \<open>A Python \<^verbatim>\<open>dict\<close> with string keys, as an association list.\<close>

type_synonym 'v pydict = "(string \<times> 'v) list"

text \<open>
  Both classes store the same five identity attributes under the same names, so the
  two records share them as a common parent. Python's \<^verbatim>\<open>None\<close> is \<open>None\<close>.
  The attribute \<^verbatim>\<open>filter\<close> is named \<open>filter_dict\<close> here.
\<close>

record identity_fields =
  column_name :: string
  db_table :: string
  db_schema :: string
  filter_dict :: "string pydict option"
  wtype :: "WarehouseType option"

text \<open>
  \<^verbatim>\<open>AggQueryBuilder\<close> lives in \<^verbatim>\<open>ddpui.datainsights.query_builder\<close>, which is
  not among the sources: the object that \<^verbatim>\<open>AggQueryBuilder()\<close> returns is a value of
  a type parameter \<open>'b\<close>, handed to the constructor.
\<close>

record 'b ColInsight = identity_fields +
  builder :: 'b

record 'b DataTypeColInsights = identity_fields +
  insights :: "'b ColInsight list"

text \<open>
  \<^verbatim>\<open>ColInsight.__init__\<close>: six assignments and no \<^verbatim>\<open>raise\<close>. The result is a
  sum so that a construction failure could be told from an instance.
\<close>

definition ColInsight_init ::
  "'b \<Rightarrow> string \<Rightarrow> string \<Rightarrow> string \<Rightarrow> string pydict option \<Rightarrow> WarehouseType option
     \<Rightarrow> insight_error + 'b ColInsight" where
  "ColInsight_init new_builder column_name' db_table' db_schema' filter' wtype' =
     Inr \<lparr> column_name = column_name',
           db_table = db_table',
           db_schema = db_schema',
           filter_dict = filter',
           wtype = wtype',
           builder = new_builder \<rparr>"

text \<open>
  \<^verbatim>\<open>DataTypeColInsights.__init__\<close>: the parameter \<^verbatim>\<open>wtype\<close> is never read; the
  attribute is set to \<^verbatim>\<open>WarehouseType.POSTGRES\<close>.
\<close>

definition DataTypeColInsights_init ::
  "string \<Rightarrow> string \<Rightarrow> string \<Rightarrow> string pydict option \<Rightarrow> WarehouseType option
     \<Rightarrow> 'b DataTypeColInsights" where
  "DataTypeColInsights_init column_name' db_table' db_schema' filter' wtype' =
     \<lparr> column_name = column_name',
       db_table = db_table',
       db_schema = db_schema',
       filter_dict = filter',
       wtype = Some POSTGRES,
       insights = [] \<rparr>"



definition ColInsight_chart_type :: "'b ColInsight \<Rightarrow> string option \<times> 'b ColInsight" where
  "ColInsight_chart_type self = (None, self)"






subsection \<open>Coordinators over their plugins\<close>

text \<open>Python's \<^verbatim>\<open>d[k] = v\<close>: the key keeps its place when it is already there.\<close>

fun dict_set :: "string \<Rightarrow> 'v \<Rightarrow> 'v pydict \<Rightarrow> 'v pydict" where
  "dict_set k v [] = [(k, v)]"
| "dict_set k v ((k', v') # d) = (if k' = k then (k, v) # d else (k', v') # dict_set k v d)"

text \<open>
  Modelled from the spec: the concrete coordinators (the subclasses of
  \<^verbatim>\<open>DataTypeColInsights\<close> that override \<^verbatim>\<open>generate_sqls\<close> and
  \<^verbatim>\<open>merge_output\<close>) and the concrete plugins are not among the sources. Section 4.4:
  \<^verbatim>\<open>generate_sqls\<close> returns the query of each owned plugin, in the plugins'
  declaration order. The plugin's own \<^verbatim>\<open>generate_sql\<close> is the parameter \<open>gen\<close>.
\<close>

definition coordinator_generate_sqls ::
  "('b ColInsight \<Rightarrow> 'q) \<Rightarrow> 'b DataTypeColInsights \<Rightarrow> 'q list" where
  "coordinator_generate_sqls gen self = map gen (insights self)"

text \<open>
  Modelled from the spec: the merge loop of section 4.4, absent from the sources. The
  i-th result set goes to the i-th plugin's \<^verbatim>\<open>parse_results\<close> (the parameter
  \<open>parse\<close>, which gives the plugin's metric key with the value, or fails), and the
  value is stored in the profile under that key; the first failure aborts the merge.
\<close>

fun merge_results ::
  "('b ColInsight \<Rightarrow> 'r pydict list \<Rightarrow> insight_error + string \<times> 'v)
     \<Rightarrow> ('b ColInsight \<times> 'r pydict list) list \<Rightarrow> 'v pydict \<Rightarrow> insight_error + 'v pydict" where
  "merge_results parse [] profile = Inr profile"
| "merge_results parse ((plugin, rows) # rest) profile =
     (case parse plugin rows of
        Inl e \<Rightarrow> Inl e
      | Inr (key, v) \<Rightarrow> merge_results parse rest (dict_set key v profile))"

text \<open>
  Modelled from the spec: \<^verbatim>\<open>merge_output\<close> of a concrete coordinator, absent from
  the sources. Section 4.4 and section 8: it requires
  \<^verbatim>\<open>len(results) == len(generate_sqls())\<close> for the same instance, and a mismatch
  raises \<^verbatim>\<open>MergeLengthMismatchError\<close>.
\<close>

definition coordinator_merge_output ::
  "('b ColInsight \<Rightarrow> 'q)
     \<Rightarrow> ('b ColInsight \<Rightarrow> 'r pydict list \<Rightarrow> insight_error + string \<times> 'v)
     \<Rightarrow> 'b DataTypeColInsights \<Rightarrow> 'r pydict list list \<Rightarrow> insight_error + 'v pydict" where
  "coordinator_merge_output gen parse self results =
     (if length results \<noteq> length (coordinator_generate_sqls gen self)
      then Inl MergeLengthMismatchError
      else merge_results parse (zip (insights self) results) [])"


section \<open>Organisations: \<^verbatim>\<open>orgfunctions.py\<close> and \<^verbatim>\<open>user_org_api.py\<close>\<close>

subsection \<open>Rows, payloads and the database\<close>

text \<open>
  The Django models and the request schemas are declared in \<^verbatim>\<open>ddpui.models\<close>,
  which is not among the sources: each record holds the attributes that the two source
  files read or write. A foreign key is the primary key of the row it points to. Where
  two classes use one attribute name, the record fields carry a prefix.
\<close>

record Org =
  org_id :: nat
  org_name :: string
  org_slug :: string
  airbyte_workspace_id :: "string option"

record User =
  user_id :: nat
  email :: string

datatype OrgUserRole = ACCOUNT_MANAGER | PIPELINE_MANAGER | Other_role string

record OrgUser =
  orguser_id :: nat
  ou_user :: User
  ou_org :: "nat option"
  role :: OrgUserRole
  email_verified :: bool

record UserAttributes =
  ua_user :: nat
  can_create_orgs :: bool
  is_consultant :: bool

record 'v OrgPlans =
  plan_id :: nat
  plan_org :: nat
  plan_base_plan :: string
  plan_can_upgrade_plan :: bool
  plan_subscription_duration :: string
  plan_superset_included :: "bool option"
  plan_start_date :: "string option"
  plan_end_date :: "string option"
  features :: "'v pydict"

record OrgWarehouse =
  wh_id :: nat
  wh_org :: nat
  wh_name :: string
  wh_wtype :: string
  credentials :: string
  airbyte_destination_id :: string

record CreateOrgSchema =
  name :: string
  base_plan :: string
  can_upgrade_plan :: bool
  subscription_duration :: string
  superset_included :: "bool option"
  start_date :: "string option"
  end_date :: "string option"

record OrgSchema =
  schema_name :: string
  schema_airbyte_workspace_id :: "string option"
  schema_slug :: "string option"

record OrgWarehouseSchema =
  payload_wtype :: string
  payload_name :: string
  destinationDefId :: string
  airbyteConfig :: "string pydict"

record AirbyteWorkspace =
  workspaceId :: string

text \<open>
  The state that the functions read and change: the tables, one sequence of primary
  keys for each table that receives rows, and what has been handed to the
  collaborators (the destinations created in Airbyte, the credentials given to the
  secrets manager, the tasks queued for the workers).
\<close>

record 'v db =
  orgs :: "Org list"
  org_seq :: nat
  orgusers :: "OrgUser list"
  orguser_seq :: nat
  userattributes :: "UserAttributes list"
  orgplans :: "'v OrgPlans list"
  orgplan_seq :: nat
  orgwarehouses :: "OrgWarehouse list"
  orgwarehouse_seq :: nat
  destinations :: "(string option \<times> string \<times> string \<times> string pydict) list"
  secrets :: "(OrgWarehouse \<times> string pydict option) list"
  queued_tasks :: "string list"

text \<open>
  What a handler raises: \<^verbatim>\<open>HttpError(status, message)\<close>, the exceptions of Python's
  own attribute and key lookups, a row that a foreign key or a reload does not find,
  and \<open>Raised\<close> for an exception that comes out of a collaborator, with its text.
\<close>

datatype api_error =
    HttpError nat string
  | KeyError string
  | AttributeError string
  | DoesNotExist
  | Raised string

subsection \<open>Library operations\<close>

text \<open>
  Django's \<^verbatim>\<open>name__iexact\<close> lookup compares without regard to case; the letters
  \<^verbatim>\<open>a\<close> to \<^verbatim>\<open>z\<close> are folded to upper case.
\<close>

definition upper_char :: "char \<Rightarrow> char" where
  "upper_char c =
     (let n = (of_char c :: nat) in if 97 \<le> n \<and> n \<le> 122 then char_of (n - 32) else c)"

definition iexact :: "string \<Rightarrow> string \<Rightarrow> bool" where
  "iexact a b = (map upper_char a = map upper_char b)"

text \<open>\<^verbatim>\<open>queryset.first()\<close>: the first row that matches, or \<^verbatim>\<open>None\<close>.\<close>

definition first :: "('a \<Rightarrow> bool) \<Rightarrow> 'a list \<Rightarrow> 'a option" where
  "first P rows = find P rows"

text \<open>\<^verbatim>\<open>d[k]\<close> raises \<^verbatim>\<open>KeyError\<close> for a key that is not there.\<close>

definition getitem :: "'v pydict \<Rightarrow> string \<Rightarrow> api_error + 'v" where
  "getitem d k = (case map_of d k of None \<Rightarrow> Inl (KeyError k) | Some v \<Rightarrow> Inr v)"

text \<open>Python's truth value of an optional boolean: \<^verbatim>\<open>None\<close> and \<^verbatim>\<open>False\<close> are false.\<close>

definition truthy :: "bool option \<Rightarrow> bool" where
  "truthy b = (b = Some True)"


subsection \<open>Saving and deleting rows\<close>

text \<open>
  \<^verbatim>\<open>org.save()\<close> of a new object inserts a row under the next primary key;
  \<^verbatim>\<open>org.delete()\<close> removes the row with the object's primary key;
  \<^verbatim>\<open>org.refresh_from_db()\<close> reloads the row with that key. Rows of other tables
  that point to a deleted organisation are not followed: the two functions delete only
  an organisation that they have just inserted.
\<close>

definition Org_new :: "string \<Rightarrow> string \<Rightarrow> 'v db \<Rightarrow> Org" where
  "Org_new name' slug' db =
     \<lparr> org_id = org_seq db, org_name = name', org_slug = slug', airbyte_workspace_id = None \<rparr>"

definition Org_save :: "Org \<Rightarrow> 'v db \<Rightarrow> 'v db" where
  "Org_save org db = db \<lparr> orgs := orgs db @ [org], org_seq := Suc (org_seq db) \<rparr>"

definition Org_delete :: "Org \<Rightarrow> 'v db \<Rightarrow> 'v db" where
  "Org_delete org db = db \<lparr> orgs := filter (\<lambda>row. org_id row \<noteq> org_id org) (orgs db) \<rparr>"

definition Org_refresh_from_db :: "Org \<Rightarrow> 'v db \<Rightarrow> api_error + Org" where
  "Org_refresh_from_db org db =
     (case first (\<lambda>row. org_id row = org_id org) (orgs db) of
        None \<Rightarrow> Inl DoesNotExist
      | Some row \<Rightarrow> Inr row)"

text \<open>
  \<^verbatim>\<open>orguser.save()\<close> of an object that has a primary key updates its row, and
  inserts the row when no row has that key.
\<close>

definition OrgUser_save :: "OrgUser \<Rightarrow> 'v db \<Rightarrow> 'v db" where
  "OrgUser_save orguser db =
     (if list_ex (\<lambda>row. orguser_id row = orguser_id orguser) (orgusers db)
      then db \<lparr> orgusers :=
             map (\<lambda>row. if orguser_id row = orguser_id orguser then orguser else row)
               (orgusers db) \<rparr>
      else db \<lparr> orgusers := orgusers db @ [orguser] \<rparr>)"

subsection \<open>\<^verbatim>\<open>create_organization\<close>\<close>

text \<open>
  The collaborators are parameters: \<open>slugify\<close> is Django's function of that name;
  \<open>setup_airbyte_workspace_v1\<close> (of \<^verbatim>\<open>airbytehelpers\<close>, not among the sources)
  gives the text of the exception it raises or the workspace it returns; \<open>delay\<close>
  stands for queueing \<^verbatim>\<open>add_custom_connectors_to_workspace\<close> with the configured
  custom sources, and gives the text of an exception if that raises. Both calls are
  inside the \<^verbatim>\<open>try\<close>. The function returns a pair; a failing reload would escape
  as an exception. Writing to the log is left out.
\<close>

definition create_organization ::
  "(string \<Rightarrow> string) \<Rightarrow> (string \<Rightarrow> Org \<Rightarrow> string + AirbyteWorkspace) \<Rightarrow> (string \<Rightarrow> string option)
     \<Rightarrow> CreateOrgSchema \<Rightarrow> 'v db \<Rightarrow> (api_error + Org option \<times> string option) \<times> 'v db" where
  "create_organization slugify setup_airbyte_workspace_v1 delay payload db =
     (case first (\<lambda>row. iexact (org_name row) (name payload)) (orgs db) of
        Some existing \<Rightarrow> (Inr (None, Some ''client org with this name already exists''), db)
      | None \<Rightarrow>
          let org = Org_new (name payload) (take 20 (slugify (name payload))) db;
              db1 = Org_save org db
          in (case setup_airbyte_workspace_v1 (org_slug org) org of
                Inl err \<Rightarrow>
                  (Inr (None, Some ''could not create airbyte workspace''), Org_delete org db1)
              | Inr workspace \<Rightarrow>
                  (case delay (workspaceId workspace) of
                     Some err \<Rightarrow>
                       (Inr (None, Some ''could not create airbyte workspace''),
                        Org_delete org db1)
                   | None \<Rightarrow>
                       let db2 = db1 \<lparr> queued_tasks := queued_tasks db1 @ [workspaceId workspace] \<rparr>
                       in (case Org_refresh_from_db org db2 of
                             Inl e \<Rightarrow> (Inl e, db2)
                           | Inr org' \<Rightarrow> (Inr (Some org', None), db2)))))"

subsection \<open>\<^verbatim>\<open>create_orgPlan\<close>\<close>

text \<open>
  The three feature tables \<^verbatim>\<open>FREE_TRIAL\<close>, \<^verbatim>\<open>DALGO\<close> and
  \<^verbatim>\<open>DALGO_WITH_SUPERSET\<close> come from \<^verbatim>\<open>ddpui.utils.constants\<close>, which is not
  among the sources: they are parameters. The chain of \<^verbatim>\<open>if\<close> and \<^verbatim>\<open>elif\<close>
  keeps its order, and \<^verbatim>\<open>{}\<close> is the empty list.
\<close>

definition plan_features ::
  "'v pydict \<Rightarrow> 'v pydict \<Rightarrow> 'v pydict \<Rightarrow> CreateOrgSchema \<Rightarrow> 'v pydict" where
  "plan_features FREE_TRIAL DALGO DALGO_WITH_SUPERSET payload =
     (if base_plan payload = ''Free Trial'' then FREE_TRIAL
      else if base_plan payload = ''Internal'' then DALGO_WITH_SUPERSET
      else if base_plan payload = ''Dalgo'' \<and> truthy (superset_included payload)
        then DALGO_WITH_SUPERSET
      else if base_plan payload = ''Dalgo'' \<and> \<not> truthy (superset_included payload)
        then DALGO
      else [])"

definition create_orgPlan ::
  "'v pydict \<Rightarrow> 'v pydict \<Rightarrow> 'v pydict \<Rightarrow> CreateOrgSchema \<Rightarrow> Org \<Rightarrow> 'v db
     \<Rightarrow> ('v OrgPlans option \<times> string option) \<times> 'v db" where
  "create_orgPlan FREE_TRIAL DALGO DALGO_WITH_SUPERSET payload org db =
     (case first (\<lambda>row. plan_org row = org_id org) (orgplans db) of
        Some existing_plan \<Rightarrow> ((None, Some ''client org's plan already exists''), db)
      | None \<Rightarrow>
          let org_plan =
                \<lparr> plan_id = orgplan_seq db,
                  plan_org = org_id org,
                  plan_base_plan = base_plan payload,
                  plan_can_upgrade_plan = can_upgrade_plan payload,
                  plan_subscription_duration = subscription_duration payload,
                  plan_superset_included = superset_included payload,
                  plan_start_date = start_date payload,
                  plan_end_date = end_date payload,
                  features = plan_features FREE_TRIAL DALGO DALGO_WITH_SUPERSET payload \<rparr>
          in ((Some org_plan, None),
              db \<lparr> orgplans := orgplans db @ [org_plan], orgplan_seq := Suc (orgplan_seq db) \<rparr>))"


subsection \<open>\<^verbatim>\<open>post_organization_warehouse\<close>\<close>

text \<open>
  A dictionary display \<^verbatim>\<open>{"k": config["k"], ...}\<close> reads the keys in the order
  written and stops at the first one that is missing.
\<close>

fun dict_from :: "'v pydict \<Rightarrow> string list \<Rightarrow> api_error + 'v pydict" where
  "dict_from config [] = Inr []"
| "dict_from config (k # ks) =
     (case getitem config k of
        Inl e \<Rightarrow> Inl e
      | Inr v \<Rightarrow> (case dict_from config ks of Inl e \<Rightarrow> Inl e | Inr d \<Rightarrow> Inr ((k, v) # d)))"

text \<open>
  The dbt credentials, by warehouse type; \<open>json_loads\<close> is Python's
  \<^verbatim>\<open>json.loads\<close>, giving the text of its exception or the parsed object.
\<close>

definition dbt_credentials_of ::
  "(string \<Rightarrow> string + string pydict) \<Rightarrow> OrgWarehouseSchema \<Rightarrow> api_error + string pydict option" where
  "dbt_credentials_of json_loads payload =
     (if payload_wtype payload = ''postgres'' then
        map_sum id Some
          (dict_from (airbyteConfig payload)
             [''host'', ''port'', ''username'', ''password'', ''database''])
      else if payload_wtype payload = ''bigquery'' then
        (case getitem (airbyteConfig payload) ''credentials_json'' of
           Inl e \<Rightarrow> Inl e
         | Inr text \<Rightarrow> map_sum Raised Some (json_loads text))
      else if payload_wtype payload = ''snowflake'' then
        map_sum id Some
          (dict_from (airbyteConfig payload)
             [''host'', ''role'', ''warehouse'', ''database'', ''schema'', ''username'',
              ''credentials''])
      else Inr None)"

text \<open>
  The handler's body, after authentication and the validation of the payload. The
  collaborators \<open>create_destination\<close> (of \<^verbatim>\<open>airbyte_service\<close>) and
  \<open>save_warehouse_credentials\<close> (of \<^verbatim>\<open>secretsmanager\<close>) are parameters that give
  the text of the exception they raise or what they return. A destination that Airbyte
  has created stays when a later step fails.
\<close>

definition post_organization_warehouse ::
  "(string option \<Rightarrow> string \<Rightarrow> string \<Rightarrow> string pydict \<Rightarrow> string + string pydict)
     \<Rightarrow> (string \<Rightarrow> string + string pydict)
     \<Rightarrow> (OrgWarehouse \<Rightarrow> string pydict option \<Rightarrow> string + string)
     \<Rightarrow> OrgUser \<Rightarrow> OrgWarehouseSchema \<Rightarrow> 'v db \<Rightarrow> (api_error + nat pydict) \<times> 'v db" where
  "post_organization_warehouse create_destination json_loads save_warehouse_credentials
       orguser payload db =
     (if payload_wtype payload \<notin> set [''postgres'', ''bigquery'', ''snowflake'']
      then (Inl (HttpError 400 (''unrecognized warehouse type '' @ payload_wtype payload)), db)
      else
        (case ou_org orguser of
           None \<Rightarrow> (Inl (AttributeError ''airbyte_workspace_id''), db)
         | Some fk \<Rightarrow>
        (case first (\<lambda>row. org_id row = fk) (orgs db) of
           None \<Rightarrow> (Inl DoesNotExist, db)
         | Some org \<Rightarrow>
        (case create_destination (airbyte_workspace_id org)
                (payload_wtype payload @ ''-warehouse'') (destinationDefId payload)
                (airbyteConfig payload) of
           Inl err \<Rightarrow> (Inl (Raised err), db)
         | Inr destination \<Rightarrow>
             let db1 = db \<lparr> destinations := destinations db @
                         [(airbyte_workspace_id org, payload_wtype payload @ ''-warehouse'',
                           destinationDefId payload, airbyteConfig payload)] \<rparr>
             in
        (case getitem destination ''destinationId'' of
           Inl e \<Rightarrow> (Inl e, db1)
         | Inr destination_id \<Rightarrow>
        (case dbt_credentials_of json_loads payload of
           Inl e \<Rightarrow> (Inl e, db1)
         | Inr dbt_credentials \<Rightarrow>
             let warehouse =
                   \<lparr> wh_id = orgwarehouse_seq db1,
                     wh_org = org_id org,
                     wh_name = payload_name payload,
                     wh_wtype = payload_wtype payload,
                     credentials = [],
                     airbyte_destination_id = destination_id \<rparr>
             in
        (case save_warehouse_credentials warehouse dbt_credentials of
           Inl err \<Rightarrow> (Inl (Raised err), db1)
         | Inr credentials_lookupkey \<Rightarrow>
             (Inr [(''success'', 1)],
              db1 \<lparr> secrets := secrets db1 @ [(warehouse, dbt_credentials)],
                    orgwarehouses := orgwarehouses db1 @
                      [warehouse \<lparr> credentials := credentials_lookupkey \<rparr>],
                    orgwarehouse_seq := Suc (orgwarehouse_seq db1) \<rparr>))))))))"

subsection \<open>\<^verbatim>\<open>post_organization_v1\<close>\<close>

text \<open>
  The handler's body for the authenticated \<^verbatim>\<open>request.orguser\<close>. Only the call of
  \<open>setup_airbyte_workspace_v1\<close> is inside the \<^verbatim>\<open>try\<close>. Writing to the log is left
  out.
\<close>

definition post_organization_v1 ::
  "(string \<Rightarrow> string) \<Rightarrow> (string \<Rightarrow> Org \<Rightarrow> string + AirbyteWorkspace)
     \<Rightarrow> OrgUser \<Rightarrow> OrgSchema \<Rightarrow> 'v db \<Rightarrow> (api_error + OrgSchema) \<times> 'v db" where
  "post_organization_v1 slugify setup_airbyte_workspace_v1 orguser payload db =
     (case first (\<lambda>row. ua_user row = user_id (ou_user orguser)) (userattributes db) of
        None \<Rightarrow> (Inl (HttpError 403 ''Insufficient permissions for this operation''), db)
      | Some attrs \<Rightarrow>
          if can_create_orgs attrs = False
          then (Inl (HttpError 403 ''Insufficient permissions for this operation''), db)
          else
            (case first (\<lambda>row. iexact (org_name row) (schema_name payload)) (orgs db) of
               Some existing \<Rightarrow>
                 (Inl (HttpError 400 ''client org with this name already exists''), db)
             | None \<Rightarrow>
                 let org = Org_new (schema_name payload)
                             (take 20 (slugify (schema_name payload))) db;
                     db1 = Org_save org db
                 in (case setup_airbyte_workspace_v1 (org_slug org) org of
                       Inl err \<Rightarrow>
                         (Inl (HttpError 400 ''could not create airbyte workspace''),
                          Org_delete org db1)
                     | Inr new_workspace \<Rightarrow>
                         let db2 =
                               (if ou_org orguser = None
                                then OrgUser_save (orguser \<lparr> ou_org := Some (org_id org) \<rparr>) db1
                                else db1 \<lparr> orgusers := orgusers db1 @
                                            [\<lparr> orguser_id = orguser_seq db1,
                                               ou_user = ou_user orguser,
                                               ou_org = Some (org_id org),
                                               role = ACCOUNT_MANAGER,
                                               email_verified = True \<rparr>],
                                          orguser_seq := Suc (orguser_seq db1) \<rparr>)
                         in (Inr \<lparr> schema_name = org_name org,
                                    schema_airbyte_workspace_id = Some (workspaceId new_workspace),
                                    schema_slug = Some (org_slug org) \<rparr>,
                             db2))))"


subsection \<open>Sample data\<close>

text \<open>A database with no rows, and the values at which the theorems are instantiated.\<close>

definition empty_db :: "'v db" where
  "empty_db =
     \<lparr> orgs = [], org_seq = 1, orgusers = [], orguser_seq = 1, userattributes = [],
       orgplans = [], orgplan_seq = 1, orgwarehouses = [], orgwarehouse_seq = 1,
       destinations = [], secrets = [], queued_tasks = [] \<rparr>"

definition example_org :: Org where
  "example_org =
     \<lparr> org_id = 1, org_name = ''Acme'', org_slug = ''acme'',
       airbyte_workspace_id = Some ''ws-1'' \<rparr>"

definition example_orguser :: OrgUser where
  "example_orguser =
     \<lparr> orguser_id = 1, ou_user = \<lparr> user_id = 7, email = ''admin@acme.org'' \<rparr>,
       ou_org = Some 1, role = ACCOUNT_MANAGER, email_verified = True \<rparr>"

definition example_db :: "nat db" where
  "example_db =
     empty_db \<lparr> orgs := [example_org], org_seq := 2,
                orgusers := [example_orguser], orguser_seq := 2,
                userattributes :=
                  [\<lparr> ua_user = 7, can_create_orgs = True, is_consultant = False \<rparr>] \<rparr>"

definition example_payload :: CreateOrgSchema where
  "example_payload =
     \<lparr> name = ''Health Workers Collective'', base_plan = ''Dalgo'',
       can_upgrade_plan = True, subscription_duration = ''Monthly'',
       superset_included = Some True, start_date = None, end_date = None \<rparr>"

text \<open>A stand-in for \<^verbatim>\<open>slugify\<close> on names of letters and spaces.\<close>

definition example_slugify :: "string \<Rightarrow> string" where
  "example_slugify s = map (\<lambda>c. if c = CHR '' '' then CHR ''-'' else c) s"


section \<open>Properties of the column-insight interface\<close>

text \<open>
  Claim C1, as amended. The claim says that constructing a plugin with a warehouse type
  outside the variant's support set fails with \<^verbatim>\<open>ConstructionError\<close>. The
  constructor \<^verbatim>\<open>ColInsight.__init__\<close> compares its \<^verbatim>\<open>wtype\<close> with nothing and
  raises nothing: for every warehouse type, and for \<^verbatim>\<open>None\<close>, it returns an
  instance that stores the arguments as they were given.
\<close>

theorem ColInsight_init_accepts_every_wtype:
  "ColInsight_init b c t s f w =
     Inr \<lparr> column_name = c, db_table = t, db_schema = s, filter_dict = f, wtype = w,
           builder = b \<rparr>"
  by (simp add: ColInsight_init_def)

text \<open>
  The claim C1 as stated fails: whatever support set a variant declares, say the single
  dialect \<open>POSTGRES\<close>, constructing with \<open>SNOWFLAKE\<close> returns an instance.
\<close>

theorem ColInsight_init_unsupported_counterexample:
  "SNOWFLAKE \<notin> {POSTGRES}
   \<and> ColInsight_init () ''amount'' ''orders'' ''public'' None (Some SNOWFLAKE) =
       Inr \<lparr> column_name = ''amount'', db_table = ''orders'', db_schema = ''public'',
             filter_dict = None, wtype = Some SNOWFLAKE, builder = () \<rparr>"
  by (simp add: ColInsight_init_def)

text \<open>
  Claim C2. Whatever \<^verbatim>\<open>wtype\<close> is passed to the constructor of a coordinator,
  \<^verbatim>\<open>None\<close> and the dialects other than Postgres included, the instance's
  \<^verbatim>\<open>wtype\<close> is \<^verbatim>\<open>WarehouseType.POSTGRES\<close>.
\<close>

theorem DataTypeColInsights_init_wtype_postgres:
  "wtype (DataTypeColInsights_init c t s f w) = Some POSTGRES"
  by (simp add: DataTypeColInsights_init_def)


text \<open>
  Claim C6. \<^verbatim>\<open>chart_type\<close>, as \<^verbatim>\<open>ColInsight\<close> defines it, returns
  \<^verbatim>\<open>None\<close> for every plugin.
\<close>

theorem chart_type_default_None:
  "fst (ColInsight_chart_type self) = None"
  by (simp add: ColInsight_chart_type_def)

text \<open>
  Claim C4. For a coordinator that merges as the specification describes, a list of
  result sets whose length differs from the length of the list that
  \<^verbatim>\<open>generate_sqls\<close> returns for the same instance is refused with
  \<^verbatim>\<open>MergeLengthMismatchError\<close>; no result set is parsed.
\<close>

theorem coordinator_merge_output_length_guard:
  "length results \<noteq> length (coordinator_generate_sqls gen self) \<Longrightarrow>
   coordinator_merge_output gen parse self results = Inl MergeLengthMismatchError"
  by (simp add: coordinator_merge_output_def)

theorem coordinator_merge_output_length_guard_witness:
  "length [[[(''null_count'', 1::nat)]]] \<noteq>
     length (coordinator_generate_sqls column_name
       ((DataTypeColInsights_init ''amount'' ''orders'' ''public'' None (Some BIGQUERY))
          \<lparr> insights :=
               [\<lparr> column_name = ''amount'', db_table = ''orders'', db_schema = ''public'',
                   filter_dict = None, wtype = Some POSTGRES, builder = () \<rparr>,
                \<lparr> column_name = ''amount'', db_table = ''orders'', db_schema = ''public'',
                   filter_dict = None, wtype = Some POSTGRES, builder = () \<rparr>] \<rparr>))
   \<and> coordinator_merge_output column_name
       (\<lambda>plugin rows. Inr (''null_count'', 0::nat))
       ((DataTypeColInsights_init ''amount'' ''orders'' ''public'' None (Some BIGQUERY))
          \<lparr> insights :=
               [\<lparr> column_name = ''amount'', db_table = ''orders'', db_schema = ''public'',
                   filter_dict = None, wtype = Some POSTGRES, builder = () \<rparr>,
                \<lparr> column_name = ''amount'', db_table = ''orders'', db_schema = ''public'',
                   filter_dict = None, wtype = Some POSTGRES, builder = () \<rparr>] \<rparr>)
       [[[(''null_count'', 1::nat)]]] = Inl MergeLengthMismatchError"
  using coordinator_merge_output_length_guard
      [of "[[[(''null_count'', 1::nat)]]]" column_name
       "(DataTypeColInsights_init ''amount'' ''orders'' ''public'' None (Some BIGQUERY))
          \<lparr> insights :=
               [\<lparr> column_name = ''amount'', db_table = ''orders'', db_schema = ''public'',
                   filter_dict = None, wtype = Some POSTGRES, builder = () \<rparr>,
                \<lparr> column_name = ''amount'', db_table = ''orders'', db_schema = ''public'',
                   filter_dict = None, wtype = Some POSTGRES, builder = () \<rparr>] \<rparr>"
       "\<lambda>plugin rows. Inr (''null_count'', 0::nat)"]
  by (simp add: coordinator_generate_sqls_def DataTypeColInsights_init_def)

section \<open>Properties of the organisation functions\<close>

text \<open>
  Claim C7. Registering a warehouse whose \<^verbatim>\<open>wtype\<close> is none of
  \<^verbatim>\<open>"postgres"\<close>, \<^verbatim>\<open>"bigquery"\<close> and \<^verbatim>\<open>"snowflake"\<close> fails with
  \<^verbatim>\<open>HttpError(400, "unrecognized warehouse type " + wtype)\<close>, and the state is the
  one the call started from: no destination was created and no warehouse row written.
\<close>

theorem unrecognized_warehouse_type_rejected:
  "payload_wtype payload \<notin> set [''postgres'', ''bigquery'', ''snowflake''] \<Longrightarrow>
   post_organization_warehouse create_destination json_loads save_warehouse_credentials
     orguser payload db =
   (Inl (HttpError 400 (''unrecognized warehouse type '' @ payload_wtype payload)), db)"
  by (simp add: post_organization_warehouse_def)

theorem unrecognized_warehouse_type_rejected_witness:
  "''mysql'' \<notin> set [''postgres'', ''bigquery'', ''snowflake'']
   \<and> post_organization_warehouse (\<lambda>ws n d c. Inr [(''destinationId'', ''dest-1'')])
       (\<lambda>text. Inr []) (\<lambda>warehouse creds. Inr ''key-1'') example_orguser
       \<lparr> payload_wtype = ''mysql'', payload_name = ''warehouse'', destinationDefId = ''def-1'',
         airbyteConfig = [(''host'', ''localhost'')] \<rparr> example_db =
     (Inl (HttpError 400 ''unrecognized warehouse type mysql''), example_db)"
  using unrecognized_warehouse_type_rejected
      [of "\<lparr> payload_wtype = ''mysql'', payload_name = ''warehouse'',
             destinationDefId = ''def-1'', airbyteConfig = [(''host'', ''localhost'')] \<rparr>"
       "\<lambda>ws n d c. Inr [(''destinationId'', ''dest-1'')]"
       "\<lambda>text. Inr []" "\<lambda>warehouse creds. Inr ''key-1''" example_orguser example_db]
  by simp

subsection \<open>Rows of the organisation table\<close>

lemma orgs_Org_save: "orgs (Org_save org db) = orgs db @ [org]"
  by (simp add: Org_save_def)

lemma orgs_Org_delete:
  "orgs (Org_delete org db) = filter (\<lambda>row. org_id row \<noteq> org_id org) (orgs db)"
  by (simp add: Org_delete_def)

lemma orgs_OrgUser_save: "orgs (OrgUser_save orguser db) = orgs db"
  by (simp add: OrgUser_save_def)

lemma org_id_Org_new: "org_id (Org_new n s db) = org_seq db"
  by (simp add: Org_new_def)

lemma org_slug_Org_new: "org_slug (Org_new n s db) = s"
  by (simp add: Org_new_def)

lemma org_name_Org_new: "org_name (Org_new n s db) = n"
  by (simp add: Org_new_def)







subsection \<open>Slugs of the rows that are created\<close>

lemma find_app:
  "find P (xs @ ys) = (case find P xs of None \<Rightarrow> find P ys | Some x \<Rightarrow> Some x)"
  by (induction xs) auto

lemma refresh_new_row:
  assumes "\<not> list_ex (\<lambda>row. org_id row = org_seq db) (orgs db)"
    and "orgs db' = orgs db @ [Org_new n s db]"
  shows "Org_refresh_from_db (Org_new n s db) db' = Inr (Org_new n s db)"
proof -
  have "find (\<lambda>row. org_id row = org_seq db) (orgs db) = None"
    using assms(1) by (auto simp add: find_None_iff list_ex_iff)
  then have "find (\<lambda>row. org_id row = org_seq db) (orgs db @ [Org_new n s db]) =
      Some (Org_new n s db)"
    by (simp add: find_app org_id_Org_new)
  then show ?thesis
    by (simp add: Org_refresh_from_db_def first_def assms(2) org_id_Org_new)
qed

lemma create_organization_new_rows:
  "set (orgs (snd (create_organization slugify setup_workspace delay payload db))) - set (orgs db)
     \<subseteq> {Org_new (name payload) (take 20 (slugify (name payload))) db}"
  by (auto simp add: create_organization_def Let_def orgs_Org_save orgs_Org_delete
      split: option.splits sum.splits)

lemma post_organization_v1_new_rows:
  "set (orgs (snd (post_organization_v1 slugify setup_workspace orguser payload db)))
       - set (orgs db)
     \<subseteq> {Org_new (schema_name payload) (take 20 (slugify (schema_name payload))) db}"
  by (auto simp add: post_organization_v1_def Let_def orgs_Org_save orgs_Org_delete
      orgs_OrgUser_save split: option.splits sum.splits if_splits)

lemma create_organization_returns_new_row:
  assumes "\<not> list_ex (\<lambda>row. org_id row = org_seq db) (orgs db)"
    and "fst (create_organization slugify setup_workspace delay payload db) =
           Inr (Some org, None)"
  shows "org = Org_new (name payload) (take 20 (slugify (name payload))) db"
proof -
  let ?org = "Org_new (name payload) (take 20 (slugify (name payload))) db"
  have reload: "\<And>w. Org_refresh_from_db ?org
      ((Org_save ?org db) \<lparr> queued_tasks := queued_tasks (Org_save ?org db) @ [w] \<rparr>) =
        Inr ?org"
    using assms(1) by (rule refresh_new_row) (simp add: orgs_Org_save)
  show ?thesis
    using assms(2)
    by (auto simp add: create_organization_def Let_def reload split: option.splits sum.splits)
qed

lemma post_organization_v1_returns_slug:
  assumes "fst (post_organization_v1 slugify setup_workspace orguser payload db) = Inr schema"
  shows "schema_slug schema = Some (take 20 (slugify (schema_name payload)))"
  using assms
  by (auto simp add: post_organization_v1_def Let_def org_slug_Org_new
      split: option.splits sum.splits if_splits)

text \<open>
  Claim C9. Every row that \<^verbatim>\<open>create_organization\<close> or
  \<^verbatim>\<open>post_organization_v1\<close> adds to the organisation table has as its slug the first
  20 characters of \<^verbatim>\<open>slugify(name)\<close>, so a slug of at most 20 characters; so has
  the organisation that \<^verbatim>\<open>create_organization\<close> returns (when the next primary key
  is not taken) and the schema that \<^verbatim>\<open>post_organization_v1\<close> returns.
\<close>

theorem created_org_slug_truncated:
  "(\<forall>row \<in> set (orgs (snd (create_organization slugify setup_workspace delay payload db)))
              - set (orgs db).
      org_slug row = take 20 (slugify (org_name row)) \<and> length (org_slug row) \<le> 20)
   \<and> (\<forall>row \<in> set (orgs (snd (post_organization_v1 slugify setup_workspace orguser
                                 schema_payload db))) - set (orgs db).
      org_slug row = take 20 (slugify (org_name row)) \<and> length (org_slug row) \<le> 20)
   \<and> (\<forall>org. \<not> list_ex (\<lambda>row. org_id row = org_seq db) (orgs db)
          \<and> fst (create_organization slugify setup_workspace delay payload db) =
              Inr (Some org, None)
        \<longrightarrow> org_slug org = take 20 (slugify (name payload)) \<and> length (org_slug org) \<le> 20)
   \<and> (\<forall>schema. fst (post_organization_v1 slugify setup_workspace orguser schema_payload db) =
                  Inr schema
        \<longrightarrow> schema_slug schema = Some (take 20 (slugify (schema_name schema_payload))))"
proof -
  have new_org: "\<And>n. org_slug (Org_new n (take 20 (slugify n)) db) =
        take 20 (slugify (org_name (Org_new n (take 20 (slugify n)) db)))
      \<and> length (org_slug (Org_new n (take 20 (slugify n)) db)) \<le> 20"
    by (simp add: org_slug_Org_new org_name_Org_new)
  have a: "\<forall>row \<in> set (orgs (snd (create_organization slugify setup_workspace delay payload db)))
              - set (orgs db).
      org_slug row = take 20 (slugify (org_name row)) \<and> length (org_slug row) \<le> 20"
    using create_organization_new_rows [of slugify setup_workspace delay payload db]
      new_org [of "name payload"] by blast
  have b: "\<forall>row \<in> set (orgs (snd (post_organization_v1 slugify setup_workspace orguser
                                 schema_payload db))) - set (orgs db).
      org_slug row = take 20 (slugify (org_name row)) \<and> length (org_slug row) \<le> 20"
    using post_organization_v1_new_rows [of slugify setup_workspace orguser schema_payload db]
      new_org [of "schema_name schema_payload"] by blast
  have c: "\<forall>org. \<not> list_ex (\<lambda>row. org_id row = org_seq db) (orgs db)
          \<and> fst (create_organization slugify setup_workspace delay payload db) =
              Inr (Some org, None)
        \<longrightarrow> org_slug org = take 20 (slugify (name payload)) \<and> length (org_slug org) \<le> 20"
    using create_organization_returns_new_row [of db slugify setup_workspace delay payload]
    by (auto simp add: org_slug_Org_new)
  have d: "\<forall>schema. fst (post_organization_v1 slugify setup_workspace orguser schema_payload db) =
                  Inr schema
        \<longrightarrow> schema_slug schema = Some (take 20 (slugify (schema_name schema_payload)))"
    using post_organization_v1_returns_slug by blast
  show ?thesis
    using a b c d by blast
qed

theorem created_org_slug_truncated_witness:
  "\<lparr> org_id = 2, org_name = ''Health Workers Collective'', org_slug = ''Health-Workers-Colle'',
      airbyte_workspace_id = None \<rparr>
     \<in> set (orgs (snd (create_organization example_slugify
                (\<lambda>slug org. Inr \<lparr> workspaceId = ''ws-2'' \<rparr>) (\<lambda>workspace_id. None)
                example_payload example_db))) - set (orgs example_db)
   \<and> \<lparr> org_id = 2, org_name = ''Health Workers Collective'', org_slug = ''Health-Workers-Colle'',
      airbyte_workspace_id = None \<rparr>
     \<in> set (orgs (snd (post_organization_v1 example_slugify
                (\<lambda>slug org. Inr \<lparr> workspaceId = ''ws-2'' \<rparr>) example_orguser
                \<lparr> schema_name = ''Health Workers Collective'',
                  schema_airbyte_workspace_id = None, schema_slug = None \<rparr>
                example_db))) - set (orgs example_db)
   \<and> ''Health-Workers-Colle'' = take 20 (example_slugify ''Health Workers Collective'')
   \<and> length ''Health-Workers-Colle'' \<le> 20
   \<and> \<not> list_ex (\<lambda>row. org_id row = org_seq example_db) (orgs example_db)
   \<and> fst (create_organization example_slugify
            (\<lambda>slug org. Inr \<lparr> workspaceId = ''ws-2'' \<rparr>) (\<lambda>workspace_id. None)
            example_payload example_db) =
       Inr (Some \<lparr> org_id = 2, org_name = ''Health Workers Collective'',
                   org_slug = ''Health-Workers-Colle'', airbyte_workspace_id = None \<rparr>, None)
   \<and> fst (post_organization_v1 example_slugify
            (\<lambda>slug org. Inr \<lparr> workspaceId = ''ws-2'' \<rparr>) example_orguser
            \<lparr> schema_name = ''Health Workers Collective'',
              schema_airbyte_workspace_id = None, schema_slug = None \<rparr> example_db) =
       Inr \<lparr> schema_name = ''Health Workers Collective'',
             schema_airbyte_workspace_id = Some ''ws-2'',
             schema_slug = Some ''Health-Workers-Colle'' \<rparr>"
proof -
  let ?helper =
    "\<lambda>(slug :: string) (org :: Org). Inr \<lparr> workspaceId = ''ws-2'' \<rparr> :: string + AirbyteWorkspace"
  let ?delay = "\<lambda>workspace_id :: string. None :: string option"
  let ?schema = "\<lparr> schema_name = ''Health Workers Collective'',
                  schema_airbyte_workspace_id = None, schema_slug = None \<rparr>"
  let ?row = "\<lparr> org_id = 2, org_name = ''Health Workers Collective'',
                org_slug = ''Health-Workers-Colle'', airbyte_workspace_id = None \<rparr>"
  have row1: "?row \<in> set (orgs (snd (create_organization example_slugify ?helper ?delay
                example_payload example_db))) - set (orgs example_db)"
    by code_simp
  have row2: "?row \<in> set (orgs (snd (post_organization_v1 example_slugify ?helper
                example_orguser ?schema example_db))) - set (orgs example_db)"
    by code_simp
  have free: "\<not> list_ex (\<lambda>row. org_id row = org_seq example_db) (orgs example_db)"
    by code_simp
  have ret1:
    "fst (create_organization example_slugify ?helper ?delay example_payload example_db) =
       Inr (Some ?row, None)"
    by code_simp
  have ret2:
    "fst (post_organization_v1 example_slugify ?helper example_orguser ?schema example_db) =
       Inr \<lparr> schema_name = ''Health Workers Collective'',
             schema_airbyte_workspace_id = Some ''ws-2'',
             schema_slug = Some ''Health-Workers-Colle'' \<rparr>"
    by code_simp
  note inst = created_org_slug_truncated [of example_slugify ?helper ?delay example_payload
      example_db example_orguser ?schema]
  from inst row1 have "org_slug ?row = take 20 (example_slugify (org_name ?row))
      \<and> length (org_slug ?row) \<le> 20"
    by blast
  moreover from inst free ret1
  have "org_slug ?row = take 20 (example_slugify (name example_payload))"
    by blast
  moreover from inst ret2 have
    "schema_slug \<lparr> schema_name = ''Health Workers Collective'',
             schema_airbyte_workspace_id = Some ''ws-2'',
             schema_slug = Some ''Health-Workers-Colle'' \<rparr> =
       Some (take 20 (example_slugify (schema_name ?schema)))"
    by blast
  ultimately show ?thesis
    using row1 row2 free ret1 ret2 by simp
qed

subsection \<open>Plans\<close>

text \<open>
  Claim C10. When the organisation already has a plan, \<^verbatim>\<open>create_orgPlan\<close> returns
  \<^verbatim>\<open>(None, "client org's plan already exists")\<close> and changes nothing. Otherwise it
  inserts and returns one plan, whose features are \<^verbatim>\<open>FREE_TRIAL\<close> for the base plan
  \<^verbatim>\<open>"Free Trial"\<close>, \<^verbatim>\<open>DALGO_WITH_SUPERSET\<close> for \<^verbatim>\<open>"Internal"\<close> and for
  \<^verbatim>\<open>"Dalgo"\<close> with superset included, \<^verbatim>\<open>DALGO\<close> for \<^verbatim>\<open>"Dalgo"\<close> without
  it, and the empty mapping for every other base plan.
\<close>

theorem create_orgPlan_features:
  "(first (\<lambda>row. plan_org row = org_id org) (orgplans db) \<noteq> None \<longrightarrow>
      create_orgPlan FREE_TRIAL DALGO DALGO_WITH_SUPERSET payload org db =
        ((None, Some ''client org's plan already exists''), db))
   \<and> (first (\<lambda>row. plan_org row = org_id org) (orgplans db) = None \<longrightarrow>
      (\<exists>org_plan.
         create_orgPlan FREE_TRIAL DALGO DALGO_WITH_SUPERSET payload org db =
           ((Some org_plan, None),
            db \<lparr> orgplans := orgplans db @ [org_plan], orgplan_seq := Suc (orgplan_seq db) \<rparr>)
         \<and> plan_org org_plan = org_id org
         \<and> (base_plan payload = ''Free Trial'' \<longrightarrow> features org_plan = FREE_TRIAL)
         \<and> (base_plan payload = ''Internal'' \<longrightarrow> features org_plan = DALGO_WITH_SUPERSET)
         \<and> (base_plan payload = ''Dalgo'' \<and> truthy (superset_included payload) \<longrightarrow>
              features org_plan = DALGO_WITH_SUPERSET)
         \<and> (base_plan payload = ''Dalgo'' \<and> \<not> truthy (superset_included payload) \<longrightarrow>
              features org_plan = DALGO)
         \<and> (base_plan payload \<notin> set [''Free Trial'', ''Internal'', ''Dalgo''] \<longrightarrow>
              features org_plan = [])))"
  by (auto simp add: create_orgPlan_def plan_features_def Let_def split: option.splits)

theorem create_orgPlan_features_witness:
  "map_option features (fst (fst (create_orgPlan [(''free'', 1)] [(''dalgo'', 1)]
       [(''dalgo'', 1), (''superset'', 1)]
       (example_payload \<lparr> base_plan := ''Free Trial'' \<rparr>) example_org example_db))) =
     Some [(''free'', 1)]
   \<and> map_option features (fst (fst (create_orgPlan [(''free'', 1)] [(''dalgo'', 1)]
       [(''dalgo'', 1), (''superset'', 1)]
       (example_payload \<lparr> base_plan := ''Internal'' \<rparr>) example_org example_db))) =
     Some [(''dalgo'', 1), (''superset'', 1)]
   \<and> map_option features (fst (fst (create_orgPlan [(''free'', 1)] [(''dalgo'', 1)]
       [(''dalgo'', 1), (''superset'', 1)]
       example_payload example_org example_db))) =
     Some [(''dalgo'', 1), (''superset'', 1)]
   \<and> map_option features (fst (fst (create_orgPlan [(''free'', 1)] [(''dalgo'', 1)]
       [(''dalgo'', 1), (''superset'', 1)]
       (example_payload \<lparr> superset_included := Some False \<rparr>) example_org example_db))) =
     Some [(''dalgo'', 1)]
   \<and> map_option features (fst (fst (create_orgPlan [(''free'', 1)] [(''dalgo'', 1)]
       [(''dalgo'', 1), (''superset'', 1)]
       (example_payload \<lparr> base_plan := ''Enterprise'' \<rparr>) example_org example_db))) =
     Some []
   \<and> create_orgPlan [(''free'', 1)] [(''dalgo'', 1)] [(''dalgo'', 1), (''superset'', 1)]
       example_payload example_org
       (snd (create_orgPlan [(''free'', 1)] [(''dalgo'', 1)] [(''dalgo'', 1), (''superset'', 1)]
          example_payload example_org example_db)) =
     ((None, Some ''client org's plan already exists''),
      snd (create_orgPlan [(''free'', 1)] [(''dalgo'', 1)] [(''dalgo'', 1), (''superset'', 1)]
          example_payload example_org example_db))"
proof -
  let ?ft = "[(''free'', 1 :: nat)]"
  let ?d = "[(''dalgo'', 1 :: nat)]"
  let ?ds = "[(''dalgo'', 1 :: nat), (''superset'', 1)]"
  let ?db' = "snd (create_orgPlan ?ft ?d ?ds example_payload example_org example_db)"
  have no_plan: "first (\<lambda>row. plan_org row = org_id example_org) (orgplans example_db) = None"
    by code_simp
  have a_plan: "first (\<lambda>row. plan_org row = org_id example_org) (orgplans ?db') \<noteq> None"
    by code_simp
  have trial: "base_plan (example_payload \<lparr> base_plan := ''Free Trial'' \<rparr>) = ''Free Trial''"
    by simp
  have internal: "base_plan (example_payload \<lparr> base_plan := ''Internal'' \<rparr>) = ''Internal''"
    by simp
  have with_superset:
    "base_plan example_payload = ''Dalgo'' \<and> truthy (superset_included example_payload)"
    by code_simp
  have without_superset:
    "base_plan (example_payload \<lparr> superset_included := Some False \<rparr>) = ''Dalgo''
     \<and> \<not> truthy (superset_included (example_payload \<lparr> superset_included := Some False \<rparr>))"
    by code_simp
  have other: "base_plan (example_payload \<lparr> base_plan := ''Enterprise'' \<rparr>)
      \<notin> set [''Free Trial'', ''Internal'', ''Dalgo'']"
    by simp
  have 1: "map_option features (fst (fst (create_orgPlan ?ft ?d ?ds
       (example_payload \<lparr> base_plan := ''Free Trial'' \<rparr>) example_org example_db))) = Some ?ft"
    using no_plan trial
      create_orgPlan_features [of example_org example_db ?ft ?d ?ds
        "example_payload \<lparr> base_plan := ''Free Trial'' \<rparr>"]
    by force
  have 2: "map_option features (fst (fst (create_orgPlan ?ft ?d ?ds
       (example_payload \<lparr> base_plan := ''Internal'' \<rparr>) example_org example_db))) = Some ?ds"
    using no_plan internal
      create_orgPlan_features [of example_org example_db ?ft ?d ?ds
        "example_payload \<lparr> base_plan := ''Internal'' \<rparr>"]
    by force
  have 3: "map_option features (fst (fst (create_orgPlan ?ft ?d ?ds
       example_payload example_org example_db))) = Some ?ds"
    using no_plan with_superset
      create_orgPlan_features [of example_org example_db ?ft ?d ?ds example_payload]
    by force
  have 4: "map_option features (fst (fst (create_orgPlan ?ft ?d ?ds
       (example_payload \<lparr> superset_included := Some False \<rparr>) example_org example_db))) =
       Some ?d"
    using no_plan without_superset
      create_orgPlan_features [of example_org example_db ?ft ?d ?ds
        "example_payload \<lparr> superset_included := Some False \<rparr>"]
    by force
  have 5: "map_option features (fst (fst (create_orgPlan ?ft ?d ?ds
       (example_payload \<lparr> base_plan := ''Enterprise'' \<rparr>) example_org example_db))) = Some []"
    using no_plan other
      create_orgPlan_features [of example_org example_db ?ft ?d ?ds
        "example_payload \<lparr> base_plan := ''Enterprise'' \<rparr>"]
    by force
  have 6: "create_orgPlan ?ft ?d ?ds example_payload example_org ?db' =
     ((None, Some ''client org's plan already exists''), ?db')"
    using a_plan create_orgPlan_features [of example_org ?db' ?ft ?d ?ds example_payload]
    by blast
  show ?thesis
    using 1 2 3 4 5 6 by simp
qed

end
